theory Spec2Isabelle
  imports Complex_Main
begin

section \<open>The maze game client (src/app/maze\_game.py)\<close>

text \<open>
  A shallow embedding of the class \<open>MazeGame\<close>: the attributes of the object are the
  fields of a record, every method takes the record and returns the updated one.
  What a method obtains from outside the process is an argument of its model:
  \<^item> the answer of the level source (\<open>api_client.get_level_data\<close>) is a function from
    the stage number to the stage data, \<open>None\<close> when the call returns \<open>None\<close> (or any
    other falsy value);
  \<^item> every reading of \<open>time.time()\<close> is a real number passed in, one argument per call
    of the clock; the subtraction of two readings is the exact one;
  \<^item> the calls made on \<open>self.analytics\<close> are appended to the field \<open>analytics\<close>, in
    the order in which the code makes them.
  Python integers are unbounded, so coordinates and counters are \<open>int\<close>. A Python
  string is a \<open>string\<close> whose characters stand for the code points below 256.
\<close>

subsection \<open>Python built-ins used by the game\<close>

datatype py_error = IndexError

text \<open>\<open>xs[i]\<close>: a negative index counts from the end, an index out of range raises.\<close>

definition py_index :: "'a list \<Rightarrow> int \<Rightarrow> py_error + 'a" where
  "py_index xs i =
     (if 0 \<le> i \<and> i < int (length xs) then Inr (xs ! nat i)
      else if i < 0 \<and> - int (length xs) \<le> i then Inr (xs ! nat (int (length xs) + i))
      else Inl IndexError)"

text \<open>
  \<open>str.isspace\<close> on one character, for the code points below 256: the controls
  TAB, LF, VT, FF, CR, the separators FS, GS, RS, US, the space, NEL and the
  no-break space.
\<close>

definition py_isspace :: "char \<Rightarrow> bool" where
  "py_isspace c \<longleftrightarrow>
     c \<in> set [CHR 0x09, CHR 0x0A, CHR 0x0B, CHR 0x0C, CHR 0x0D,
                CHR 0x1C, CHR 0x1D, CHR 0x1E, CHR 0x1F, CHR 0x20, CHR 0x85, CHR 0xA0]"

text \<open>\<open>s.strip()\<close>: drops the whitespace at both ends.\<close>

definition py_strip :: "string \<Rightarrow> string" where
  "py_strip s = rev (dropWhile py_isspace (rev (dropWhile py_isspace s)))"

text \<open>
  \<open>s.split('\n')\<close>: cuts at every line feed; the result is never empty.
  \<open>add_to_first\<close> puts a character in front of the first piece.
\<close>

fun add_to_first :: "char \<Rightarrow> string list \<Rightarrow> string list" where
  "add_to_first c [] = [[c]]"
| "add_to_first c (r # rs) = (c # r) # rs"

fun py_split_nl :: "string \<Rightarrow> string list" where
  "py_split_nl [] = [[]]"
| "py_split_nl (c # cs) =
     (if c = CHR 0x0A then [] # py_split_nl cs else add_to_first c (py_split_nl cs))"

subsection \<open>pygame values used by the game\<close>

text \<open>The four arrow keys, and \<open>K_other c\<close> for a key with any other key code \<open>c\<close>.\<close>

datatype key = K_UP | K_DOWN | K_LEFT | K_RIGHT | K_other nat

text \<open>\<open>pygame.Rect(left, top, width, height)\<close>.\<close>

datatype rect = Rect int int int int

text \<open>A rectangle is true when neither its width nor its height is zero.\<close>

fun rect_bool :: "rect \<Rightarrow> bool" where
  "rect_bool (Rect l t w h) = (w \<noteq> 0 \<and> h \<noteq> 0)"

fun collidepoint :: "rect \<Rightarrow> int \<times> int \<Rightarrow> bool" where
  "collidepoint (Rect l t w h) (px, py) = (l \<le> px \<and> px < l + w \<and> t \<le> py \<and> py < t + h)"

text \<open>The events of \<open>pygame.event.get()\<close>; \<open>OTHER_EVENT\<close> is any other event type.\<close>

datatype event = QUIT | KEYDOWN key | MOUSEBUTTONDOWN "int \<times> int" | OTHER_EVENT

subsection \<open>The state of the game\<close>

datatype game_state = STATE_PLAYING | STATE_STAGE_COMPLETE | STATE_GAME_COMPLETE

text \<open>The dictionary returned by the level source, with the keys the game reads.\<close>

record stage_data =
  sd_stage_number :: int
  sd_layout :: string
  sd_width :: int
  sd_height :: int
  sd_start_x :: int
  sd_start_y :: int
  sd_end_x :: int
  sd_end_y :: int

type_synonym level_source = "int \<Rightarrow> stage_data option"

text \<open>The calls on the analytics handler.\<close>

datatype telemetry =
    Game_start
  | Level_complete int real int
  | Game_complete real int

record game =
  current_stage :: int
  total_stages :: int
  stage_data :: "stage_data option"
  maze :: "string list"
  player_x :: int
  player_y :: int
  end_x :: int
  end_y :: int
  game_state :: game_state
  running :: bool
  stage_start_time :: real
  stage_moves :: int
  total_moves :: int
  game_start_time :: real
  continue_button :: "rect option"
  analytics :: "telemetry list"

text \<open>\<open>MazeGame.__init__\<close>.\<close>

definition new_game :: game where
  "new_game =
     \<lparr> current_stage = 1, total_stages = 10, stage_data = None, maze = [],
       player_x = 0, player_y = 0, end_x = 0, end_y = 0,
       game_state = STATE_PLAYING, running = True,
       stage_start_time = 0, stage_moves = 0, total_moves = 0, game_start_time = 0,
       continue_button = None, analytics = [] \<rparr>"

subsection \<open>Loading a stage\<close>

text \<open>
  The parse of the layout, as \<open>load_stage\<close> does it in line: strip, split at the line
  feeds, one list of characters per line.
\<close>

definition parse_layout :: "string \<Rightarrow> string list" where
  "parse_layout l = py_split_nl (py_strip l)"

definition load_stage :: "level_source \<Rightarrow> real \<Rightarrow> int \<Rightarrow> game \<Rightarrow> bool \<times> game" where
  "load_stage src now stage_number g =
     (let g1 = g\<lparr>stage_data := src stage_number\<rparr>
      in case stage_data g1 of
           None \<Rightarrow> (False, g1)
         | Some d \<Rightarrow>
             (True,
              g1\<lparr> maze := parse_layout (sd_layout d),
                  player_x := sd_start_x d, player_y := sd_start_y d,
                  end_x := sd_end_x d, end_y := sd_end_y d,
                  stage_start_time := now, stage_moves := 0,
                  game_state := STATE_PLAYING \<rparr>))"

text \<open>
  \<open>initialize\<close>: \<open>test_connection\<close> fetches stage 1 once (answer \<open>src0\<close>), then the first
  stage is loaded (answer \<open>src\<close>).
\<close>

definition initialize :: "level_source \<Rightarrow> level_source \<Rightarrow> real \<Rightarrow> real \<Rightarrow> game \<Rightarrow> bool \<times> game" where
  "initialize src0 src now1 now2 g =
     (if src0 1 = None then (False, g)
      else load_stage src now2 (current_stage g)
             (g\<lparr>game_start_time := now1, analytics := analytics g @ [Game_start]\<rparr>))"

subsection \<open>Movement\<close>

definition is_valid_move :: "string list \<Rightarrow> int \<Rightarrow> int \<Rightarrow> py_error + bool" where
  "is_valid_move mz x y =
     (if y < 0 \<or> y \<ge> int (length mz) then Inr False
      else case py_index mz y of
             Inl e \<Rightarrow> Inl e
           | Inr row \<Rightarrow>
               if x < 0 \<or> x \<ge> int (length row) then Inr False
               else case py_index row x of
                      Inl e \<Rightarrow> Inl e
                    | Inr cell \<Rightarrow> Inr (cell \<noteq> CHR ''#''))"

text \<open>\<open>is_valid_move\<close> of src/app/maze\_game\_local.py, which has no local variable.\<close>

definition is_valid_move_local :: "string list \<Rightarrow> int \<Rightarrow> int \<Rightarrow> py_error + bool" where
  "is_valid_move_local mz x y =
     (if y < 0 \<or> y \<ge> int (length mz) then Inr False
      else case py_index mz y of
             Inl e \<Rightarrow> Inl e
           | Inr row \<Rightarrow>
               if x < 0 \<or> x \<ge> int (length row) then Inr False
               else case py_index mz y of
                      Inl e \<Rightarrow> Inl e
                    | Inr row2 \<Rightarrow>
                        (case py_index row2 x of
                           Inl e \<Rightarrow> Inl e
                         | Inr cell \<Rightarrow> Inr (cell \<noteq> CHR ''#'')))"

definition stage_completed :: "real \<Rightarrow> real \<Rightarrow> game \<Rightarrow> game" where
  "stage_completed now1 now2 g =
     (let stage_time = now1 - stage_start_time g;
          g1 = g\<lparr>analytics := analytics g @
                  [Level_complete (current_stage g) stage_time (stage_moves g)]\<rparr>
      in if current_stage g1 \<ge> total_stages g1
         then (let g2 = g1\<lparr>game_state := STATE_GAME_COMPLETE\<rparr>;
                   total_time = now2 - game_start_time g2
               in g2\<lparr>analytics := analytics g2 @ [Game_complete total_time (total_moves g2)]\<rparr>)
         else g1\<lparr>game_state := STATE_STAGE_COMPLETE\<rparr>)"

text \<open>The square a key asks for; \<open>None\<close> is the early return of a key that is no arrow.\<close>

fun new_position :: "key \<Rightarrow> int \<times> int \<Rightarrow> (int \<times> int) option" where
  "new_position K_UP (new_x, new_y) = Some (new_x, new_y - 1)"
| "new_position K_DOWN (new_x, new_y) = Some (new_x, new_y + 1)"
| "new_position K_LEFT (new_x, new_y) = Some (new_x - 1, new_y)"
| "new_position K_RIGHT (new_x, new_y) = Some (new_x + 1, new_y)"
| "new_position (K_other c) (new_x, new_y) = None"

definition handle_movement :: "real \<Rightarrow> real \<Rightarrow> key \<Rightarrow> game \<Rightarrow> py_error + game" where
  "handle_movement now1 now2 k g =
     (case new_position k (player_x g, player_y g) of
        None \<Rightarrow> Inr g
      | Some (new_x, new_y) \<Rightarrow>
          (case is_valid_move (maze g) new_x new_y of
             Inl e \<Rightarrow> Inl e
           | Inr valid \<Rightarrow>
               if valid
               then (let g1 = g\<lparr> player_x := new_x, player_y := new_y,
                                  stage_moves := stage_moves g + 1,
                                  total_moves := total_moves g + 1 \<rparr>
                     in if player_x g1 = end_x g1 \<and> player_y g1 = end_y g1
                        then Inr (stage_completed now1 now2 g1)
                        else Inr g1)
               else Inr g))"

subsection \<open>Stage sequencing\<close>

definition next_stage :: "level_source \<Rightarrow> real \<Rightarrow> game \<Rightarrow> game" where
  "next_stage src now g =
     (let g1 = g\<lparr>current_stage := current_stage g + 1\<rparr>
      in if current_stage g1 \<le> total_stages g1
         then snd (load_stage src now (current_stage g1) g1)
         else g1\<lparr>game_state := STATE_GAME_COMPLETE\<rparr>)"

definition restart_game :: "level_source \<Rightarrow> real \<Rightarrow> real \<Rightarrow> game \<Rightarrow> game" where
  "restart_game src now1 now2 g =
     (let g1 = g\<lparr> current_stage := 1, total_moves := 0, game_start_time := now1,
                    analytics := analytics g @ [Game_start] \<rparr>
      in snd (load_stage src now2 (current_stage g1) g1))"

subsection \<open>Drawing\<close>

text \<open>
  Of \<open>draw\<close> the model keeps what it does to the state: the two popups store the
  rectangle of their button in \<open>continue_button\<close>, and \<open>draw_maze\<close> reads
  \<open>self.maze[0]\<close>. \<open>sw\<close> and \<open>sh\<close> are \<open>SCREEN_WIDTH\<close> and \<open>SCREEN_HEIGHT\<close>.
\<close>

definition draw_stage_complete_popup :: "int \<Rightarrow> int \<Rightarrow> game \<Rightarrow> game" where
  "draw_stage_complete_popup sw sh g =
     (let popup_height = 200;
          popup_y = (sh - popup_height) div 2;
          button_width = 150;
          button_height = 40;
          button_x = (sw - button_width) div 2;
          button_y = popup_y + 140
      in g\<lparr>continue_button := Some (Rect button_x button_y button_width button_height)\<rparr>)"

definition draw_game_complete_popup :: "int \<Rightarrow> int \<Rightarrow> game \<Rightarrow> game" where
  "draw_game_complete_popup sw sh g =
     (let popup_height = 300;
          popup_y = (sh - popup_height) div 2;
          button_width = 180;
          button_height = 40;
          button_x = (sw - button_width) div 2;
          button_y = popup_y + 220
      in g\<lparr>continue_button := Some (Rect button_x button_y button_width button_height)\<rparr>)"

definition draw :: "int \<Rightarrow> int \<Rightarrow> game \<Rightarrow> py_error + game" where
  "draw sw sh g =
     (case game_state g of
        STATE_PLAYING \<Rightarrow> (case py_index (maze g) 0 of Inl e \<Rightarrow> Inl e | Inr row \<Rightarrow> Inr g)
      | STATE_STAGE_COMPLETE \<Rightarrow> Inr (draw_stage_complete_popup sw sh g)
      | STATE_GAME_COMPLETE \<Rightarrow> Inr (draw_game_complete_popup sw sh g))"

subsection \<open>Events and the main loop\<close>

text \<open>\<open>self.continue_button and self.continue_button.collidepoint(event.pos)\<close>.\<close>

definition button_clicked :: "game \<Rightarrow> int \<times> int \<Rightarrow> bool" where
  "button_clicked g pos =
     (case continue_button g of None \<Rightarrow> False | Some r \<Rightarrow> rect_bool r \<and> collidepoint r pos)"

text \<open>The body of the loop of \<open>handle_events\<close>, for one event.\<close>

definition handle_event :: "level_source \<Rightarrow> real \<Rightarrow> real \<Rightarrow> event \<Rightarrow> game \<Rightarrow> py_error + game" where
  "handle_event src now1 now2 ev g =
     (case ev of
        QUIT \<Rightarrow> Inr (g\<lparr>running := False\<rparr>)
      | KEYDOWN k \<Rightarrow>
          if game_state g = STATE_PLAYING then handle_movement now1 now2 k g else Inr g
      | MOUSEBUTTONDOWN pos \<Rightarrow>
          if game_state g = STATE_STAGE_COMPLETE
          then (if button_clicked g pos then Inr (next_stage src now1 g) else Inr g)
          else if game_state g = STATE_GAME_COMPLETE
          then (if button_clicked g pos then Inr (restart_game src now1 now2 g) else Inr g)
          else Inr g
      | OTHER_EVENT \<Rightarrow> Inr g)"

text \<open>
  An event comes with what the outside answers while it is handled: the level source
  and two readings of the clock.
\<close>

type_synonym input = "level_source \<times> real \<times> real \<times> event"

fun handle_events :: "input list \<Rightarrow> game \<Rightarrow> py_error + game" where
  "handle_events [] g = Inr g"
| "handle_events ((src, now1, now2, ev) # evs) g =
     (case handle_event src now1 now2 ev g of
        Inl e \<Rightarrow> Inl e
      | Inr g1 \<Rightarrow> handle_events evs g1)"

text \<open>
  \<open>run\<close>, for the frames given: each frame handles its events and draws, as long as
  \<open>running\<close> holds.
\<close>

fun run :: "int \<Rightarrow> int \<Rightarrow> input list list \<Rightarrow> game \<Rightarrow> py_error + game" where
  "run sw sh [] g = Inr g"
| "run sw sh (f # fs) g =
     (if running g
      then (case handle_events f g of
              Inl e \<Rightarrow> Inl e
            | Inr g1 \<Rightarrow> (case draw sw sh g1 of Inl e \<Rightarrow> Inl e | Inr g2 \<Rightarrow> run sw sh fs g2))
      else Inr g)"

text \<open>\<open>main\<close>: \<open>None\<close> is \<open>sys.exit(1)\<close> after a failed \<open>initialize\<close>.\<close>

definition main ::
  "int \<Rightarrow> int \<Rightarrow> level_source \<Rightarrow> level_source \<Rightarrow> real \<Rightarrow> real \<Rightarrow> input list list
     \<Rightarrow> (py_error + game) option" where
  "main sw sh src0 src now1 now2 frames =
     (case initialize src0 src now1 now2 new_game of
        (ok, g) \<Rightarrow> if ok then Some (run sw sh frames g) else None)"

subsection \<open>Sequences of calls\<close>

text \<open>A call of one of the four operations that change the counters, with its arguments.\<close>

datatype operation =
    Handle_movement real real key
  | Load_stage level_source real int
  | Next_stage level_source real
  | Restart_game level_source real real

fun apply_operation :: "operation \<Rightarrow> game \<Rightarrow> py_error + game" where
  "apply_operation (Handle_movement now1 now2 k) g = handle_movement now1 now2 k g"
| "apply_operation (Load_stage src now n) g = Inr (snd (load_stage src now n g))"
| "apply_operation (Next_stage src now) g = Inr (next_stage src now g)"
| "apply_operation (Restart_game src now1 now2) g = Inr (restart_game src now1 now2 g)"

fun apply_operations :: "operation list \<Rightarrow> game \<Rightarrow> py_error + game" where
  "apply_operations [] g = Inr g"
| "apply_operations (op # ops) g =
     (case apply_operation op g of Inl e \<Rightarrow> Inl e | Inr g1 \<Rightarrow> apply_operations ops g1)"

text \<open>A sequence of keys given to \<open>handle_movement\<close>, each with its two clock readings.\<close>

fun handle_movements :: "(real \<times> real \<times> key) list \<Rightarrow> game \<Rightarrow> py_error + game" where
  "handle_movements [] g = Inr g"
| "handle_movements ((now1, now2, k) # ks) g =
     (case handle_movement now1 now2 k g of Inl e \<Rightarrow> Inl e | Inr g1 \<Rightarrow> handle_movements ks g1)"

subsection \<open>The walkability the specification describes\<close>

text \<open>
  The cell of a grid at \<open>(x, y)\<close>, \<open>None\<close> out of bounds: \<open>y\<close> must address a row and \<open>x\<close>
  a cell of that row.
\<close>

definition cell_at :: "string list \<Rightarrow> int \<Rightarrow> int \<Rightarrow> char option" where
  "cell_at mz x y =
     (if 0 \<le> y \<and> y < int (length mz) \<and> 0 \<le> x \<and> x < int (length (mz ! nat y))
      then Some (mz ! nat y ! nat x) else None)"

definition is_open :: "string list \<Rightarrow> int \<Rightarrow> int \<Rightarrow> bool" where
  "is_open mz x y = (case cell_at mz x y of None \<Rightarrow> False | Some c \<Rightarrow> c \<noteq> CHR ''#'')"

datatype direction = Up | Down | Left | Right

fun delta :: "direction \<Rightarrow> int \<times> int" where
  "delta Up = (0, -1)"
| "delta Down = (0, 1)"
| "delta Left = (-1, 0)"
| "delta Right = (1, 0)"

fun arrow :: "direction \<Rightarrow> key" where
  "arrow Up = K_UP"
| "arrow Down = K_DOWN"
| "arrow Left = K_LEFT"
| "arrow Right = K_RIGHT"

text \<open>
  The outcome of a move as the specification names it: the move is accepted when the
  square one step away is open, and reaches the goal when that square is the goal.
\<close>

datatype move_outcome = Moved | Rejected | ReachedGoal

definition apply_move_outcome :: "game \<Rightarrow> direction \<Rightarrow> move_outcome" where
  "apply_move_outcome g d =
     (let to_x = player_x g + fst (delta d); to_y = player_y g + snd (delta d)
      in if is_open (maze g) to_x to_y
         then (if to_x = end_x g \<and> to_y = end_y g then ReachedGoal else Moved)
         else Rejected)"

fun direction_of :: "key \<Rightarrow> direction option" where
  "direction_of K_UP = Some Up"
| "direction_of K_DOWN = Some Down"
| "direction_of K_LEFT = Some Left"
| "direction_of K_RIGHT = Some Right"
| "direction_of (K_other c) = None"

definition accepted :: "game \<Rightarrow> key \<Rightarrow> bool" where
  "accepted g k =
     (case direction_of k of
        None \<Rightarrow> False
      | Some d \<Rightarrow> apply_move_outcome g d = Moved \<or> apply_move_outcome g d = ReachedGoal)"

text \<open>The number of accepted moves in a sequence of keys, each judged in the state it meets.\<close>

fun accepted_moves :: "(real \<times> real \<times> key) list \<Rightarrow> game \<Rightarrow> nat" where
  "accepted_moves [] g = 0"
| "accepted_moves ((now1, now2, k) # ks) g =
     (if accepted g k then 1 else 0) +
     (case handle_movement now1 now2 k g of Inl e \<Rightarrow> 0 | Inr g1 \<Rightarrow> accepted_moves ks g1)"

subsection \<open>Layouts\<close>

text \<open>A line is blank when it holds nothing but whitespace.\<close>

definition blank :: "string \<Rightarrow> bool" where
  "blank s = list_all py_isspace s"

text \<open>The layout made of the given rows, one line feed between two rows.\<close>

fun join_lines :: "string list \<Rightarrow> string" where
  "join_lines [] = []"
| "join_lines [r] = r"
| "join_lines (r # r' # rs) = r @ CHR 0x0A # join_lines (r' # rs)"

subsection \<open>Conditions on what the level source answers\<close>

text \<open>The source has data for every stage from 1 to 10.\<close>

definition serves_all_stages :: "level_source \<Rightarrow> bool" where
  "serves_all_stages src = list_all (\<lambda>n. src n \<noteq> None) [1..10]"

definition loads_succeed :: "input list list \<Rightarrow> bool" where
  "loads_succeed frames =
     list_all (list_all (\<lambda>(src, now1, now2, ev). serves_all_stages src)) frames"

fun restart_loads :: "operation \<Rightarrow> bool" where
  "restart_loads (Restart_game src now1 now2) = (src 1 \<noteq> None)"
| "restart_loads (Handle_movement now1 now2 k) = True"
| "restart_loads (Load_stage src now n) = True"
| "restart_loads (Next_stage src now) = True"

subsection \<open>A stage to run the definitions on\<close>

text \<open>Scenario A of the specification: two steps down lead from the start to the goal.\<close>

definition scenario_layout :: string where
  "scenario_layout = join_lines [''###'', ''#S#'', ''#.#'', ''#E#'', ''###'']"

definition scenario_stage :: stage_data where
  "scenario_stage =
     \<lparr> sd_stage_number = 1, sd_layout = scenario_layout, sd_width = 3, sd_height = 5,
       sd_start_x = 1, sd_start_y = 1, sd_end_x = 1, sd_end_y = 3 \<rparr>"

definition scenario_maze :: "string list" where
  "scenario_maze = [''###'', ''#S#'', ''#.#'', ''#E#'', ''###'']"

text \<open>A ragged grid: its rows differ in length.\<close>

definition ragged_maze :: "string list" where
  "ragged_maze = [''#..'', ''.'', ''#.#.'']"

text \<open>Stage data whose layout is the empty string.\<close>

definition empty_stage :: stage_data where
  "empty_stage =
     \<lparr> sd_stage_number = 1, sd_layout = [], sd_width = 0, sd_height = 0,
       sd_start_x = 0, sd_start_y = 0, sd_end_x = 0, sd_end_y = 0 \<rparr>"

text \<open>The source that answers every request with the empty layout.\<close>

definition empty_source :: level_source where
  "empty_source n = Some empty_stage"

text \<open>Three level sources: every stage, stage 1 only, nothing.\<close>

definition every_stage :: level_source where
  "every_stage n = Some scenario_stage"

definition only_stage_1 :: level_source where
  "only_stage_1 n = (if n = 1 then Some scenario_stage else None)"

definition no_stage :: level_source where
  "no_stage n = None"

text \<open>The game when the scenario's stage has just been loaded, at clock reading 0.\<close>

definition scenario_game :: game where
  "scenario_game =
     new_game\<lparr> stage_data := Some scenario_stage, maze := scenario_maze,
               player_x := 1, player_y := 1, end_x := 1, end_y := 3 \<rparr>"

subsection \<open>Invariants\<close>

text \<open>The stage counter does not exceed the total counter, and neither is negative.\<close>

definition counters_ordered :: "game \<Rightarrow> bool" where
  "counters_ordered g \<longleftrightarrow> 0 \<le> stage_moves g \<and> stage_moves g \<le> total_moves g"

text \<open>
  The stage number stays between 1 and the number of stages, below it while a stage
  is complete and equal to it once the game is complete.
\<close>

definition stage_in_range :: "game \<Rightarrow> bool" where
  "stage_in_range g \<longleftrightarrow>
     total_stages g = 10 \<and> 1 \<le> current_stage g \<and> current_stage g \<le> total_stages g \<and>
     (game_state g = STATE_STAGE_COMPLETE \<longrightarrow> current_stage g < total_stages g) \<and>
     (game_state g = STATE_GAME_COMPLETE \<longrightarrow> current_stage g = total_stages g)"

subsection \<open>Two runs of the main loop\<close>

text \<open>
  The level source has stage 1 only: two steps down complete the stage, the popup is
  drawn, and the button is clicked in each of the next ten frames.
\<close>

definition failed_continue_frames :: "input list list" where
  "failed_continue_frames =
     [(only_stage_1, 0, 0, KEYDOWN K_DOWN), (only_stage_1, 0, 0, KEYDOWN K_DOWN)] #
     replicate 10 [(only_stage_1, 0, 0, MOUSEBUTTONDOWN (400, 360))]"

text \<open>
  The level source has every stage: nine times two steps down and a click on the
  button, then two steps down on the last stage.
\<close>

definition full_play_frames :: "input list list" where
  "full_play_frames =
     concat (replicate 9
       [[(every_stage, 0, 0, KEYDOWN K_DOWN), (every_stage, 0, 0, KEYDOWN K_DOWN)],
        [(every_stage, 0, 0, MOUSEBUTTONDOWN (400, 360))]]) @
     [[(every_stage, 0, 0, KEYDOWN K_DOWN), (every_stage, 0, 0, KEYDOWN K_DOWN)]]"

section \<open>Properties\<close>

lemma is_valid_move_is_open: "is_valid_move mz x y = Inr (is_open mz x y)"
  by (simp add: is_valid_move_def is_open_def cell_at_def py_index_def)

lemma is_valid_move_local_is_open: "is_valid_move_local mz x y = Inr (is_open mz x y)"
  by (simp add: is_valid_move_local_def is_open_def cell_at_def py_index_def)

lemma stage_completed_position:
  "player_x (stage_completed now1 now2 g) = player_x g"
  "player_y (stage_completed now1 now2 g) = player_y g"
  by (simp_all add: stage_completed_def Let_def)

lemma nth_scenario_maze:
  "scenario_maze ! 0 = ''###''" "scenario_maze ! Suc 0 = ''#S#''" "scenario_maze ! 2 = ''#.#''"
  "scenario_maze ! 3 = ''#E#''" "scenario_maze ! 4 = ''###''" "length scenario_maze = 5"
  by (simp_all add: scenario_maze_def)

lemma is_open_scenario:
  "is_open scenario_maze 1 2" "is_open scenario_maze 1 3" "\<not> is_open scenario_maze 0 1"
  by (simp_all add: is_open_def cell_at_def nth_scenario_maze)

subsection \<open>C6: the walkability query is total\<close>

text \<open>
  Claim C6. For every grid and every pair of integers \<open>(x, y)\<close>, \<open>is_valid_move\<close> returns
  a boolean and never raises: \<open>False\<close> when \<open>y\<close> is negative or not below the number of
  rows, \<open>False\<close> when \<open>x\<close> is negative or not below the length of row \<open>y\<close> (the rows may
  differ in length), \<open>False\<close> on a cell that holds \<open>#\<close> and \<open>True\<close> on every other cell
  in bounds. The function of the local variant computes the same.
\<close>

theorem is_valid_move_total:
  "(\<exists>b. is_valid_move mz x y = Inr b) \<and>
   (y < 0 \<or> int (length mz) \<le> y \<longrightarrow> is_valid_move mz x y = Inr False) \<and>
   (0 \<le> y \<and> y < int (length mz) \<and> (x < 0 \<or> int (length (mz ! nat y)) \<le> x)
       \<longrightarrow> is_valid_move mz x y = Inr False) \<and>
   (0 \<le> y \<and> y < int (length mz) \<and> 0 \<le> x \<and> x < int (length (mz ! nat y))
       \<longrightarrow> is_valid_move mz x y = Inr (mz ! nat y ! nat x \<noteq> CHR ''#'')) \<and>
   is_valid_move_local mz x y = is_valid_move mz x y"
  by (simp add: is_valid_move_is_open is_valid_move_local_is_open is_open_def cell_at_def)

text \<open>On a ragged grid: above, below, left of, right of a short row, on a wall, on an open cell.\<close>

theorem is_valid_move_total_witness:
  "is_valid_move ragged_maze 0 (-1) = Inr False \<and>
   is_valid_move ragged_maze 0 3 = Inr False \<and>
   is_valid_move ragged_maze (-1) 1 = Inr False \<and>
   is_valid_move ragged_maze 2 1 = Inr False \<and>
   is_valid_move ragged_maze 0 2 = Inr False \<and>
   is_valid_move ragged_maze 3 2 = Inr True \<and>
   is_valid_move_local ragged_maze 3 2 = Inr True"
  using is_valid_move_total [of ragged_maze 0 "-1"] is_valid_move_total [of ragged_maze 0 3]
    is_valid_move_total [of ragged_maze "-1" 1] is_valid_move_total [of ragged_maze 2 1]
    is_valid_move_total [of ragged_maze 0 2] is_valid_move_total [of ragged_maze 3 2]
  by (simp add: ragged_maze_def)

subsection \<open>C1: where a move leads\<close>

text \<open>
  Claim C1. For every grid, position and arrow key, \<open>handle_movement\<close> returns, and the
  player then stands one step further in the direction of the key when that square
  is in bounds and no wall, and where it stood in every other case.
\<close>

theorem handle_movement_position:
  "\<exists>g'. handle_movement now1 now2 (arrow d) g = Inr g' \<and>
     (player_x g', player_y g') =
       (if is_open (maze g) (player_x g + fst (delta d)) (player_y g + snd (delta d))
        then (player_x g + fst (delta d), player_y g + snd (delta d))
        else (player_x g, player_y g))"
  by (cases d) (simp_all add: handle_movement_def is_valid_move_is_open stage_completed_position Let_def)

text \<open>In the scenario: down from the start is open, left of it is a wall.\<close>

theorem handle_movement_position_witness:
  "(\<exists>g'. handle_movement 0 0 K_DOWN scenario_game = Inr g' \<and> (player_x g', player_y g') = (1, 2)) \<and>
   (\<exists>g'. handle_movement 0 0 K_LEFT scenario_game = Inr g' \<and> (player_x g', player_y g') = (1, 1))"
  using handle_movement_position [of 0 0 Down scenario_game]
    handle_movement_position [of 0 0 Left scenario_game]
  by (simp add: scenario_game_def new_game_def is_open_scenario)

subsection \<open>C9: a load without data\<close>

text \<open>
  Claim C9. For every stage number for which the level source returns no data,
  \<open>load_stage\<close> returns \<open>False\<close> and changes nothing but \<open>stage_data\<close>: the grid, the
  player and goal positions, both move counters and the phase keep their values.
\<close>

theorem load_stage_no_data:
  "src n = None \<Longrightarrow>
     load_stage src now n g = (False, g\<lparr>stage_data := None\<rparr>) \<and>
     maze (snd (load_stage src now n g)) = maze g \<and>
     player_x (snd (load_stage src now n g)) = player_x g \<and>
     player_y (snd (load_stage src now n g)) = player_y g \<and>
     end_x (snd (load_stage src now n g)) = end_x g \<and>
     end_y (snd (load_stage src now n g)) = end_y g \<and>
     stage_moves (snd (load_stage src now n g)) = stage_moves g \<and>
     total_moves (snd (load_stage src now n g)) = total_moves g \<and>
     game_state (snd (load_stage src now n g)) = game_state g"
  by (simp add: load_stage_def Let_def)

text \<open>Stage 2 of a source that has nothing, asked for in the middle of the scenario.\<close>

theorem load_stage_no_data_witness:
  "no_stage 2 = None \<and>
   load_stage no_stage 5 2 scenario_game = (False, scenario_game\<lparr>stage_data := None\<rparr>) \<and>
   maze (snd (load_stage no_stage 5 2 scenario_game)) = scenario_maze"
  using load_stage_no_data [of no_stage 2 5 scenario_game]
  by (simp add: no_stage_def scenario_game_def new_game_def)

subsection \<open>C8: input outside the transitions\<close>

text \<open>
  Claim C8. An event that matches no transition of the state machine leaves the state
  as it is: a key while the phase is not playing, a mouse click while the phase is
  playing, a click that misses the button, a key that is no arrow, and an event of any
  other type. \<open>QUIT\<close> clears \<open>running\<close> and touches nothing else.
\<close>

theorem unlisted_input_ignored:
  "(game_state g \<noteq> STATE_PLAYING \<longrightarrow> handle_event src now1 now2 (KEYDOWN k) g = Inr g) \<and>
   (game_state g = STATE_PLAYING \<longrightarrow> handle_event src now1 now2 (MOUSEBUTTONDOWN pos) g = Inr g) \<and>
   (\<not> button_clicked g pos \<longrightarrow> handle_event src now1 now2 (MOUSEBUTTONDOWN pos) g = Inr g) \<and>
   handle_event src now1 now2 (KEYDOWN (K_other c)) g = Inr g \<and>
   handle_event src now1 now2 OTHER_EVENT g = Inr g \<and>
   handle_event src now1 now2 QUIT g = Inr (g\<lparr>running := False\<rparr>)"
  by (simp add: handle_event_def handle_movement_def)

text \<open>
  A key in each of the two complete phases, a click while playing, and a click beside
  the button of the popup.
\<close>

theorem unlisted_input_ignored_witness:
  "handle_event every_stage 0 0 (KEYDOWN K_DOWN) (scenario_game\<lparr>game_state := STATE_STAGE_COMPLETE\<rparr>)
     = Inr (scenario_game\<lparr>game_state := STATE_STAGE_COMPLETE\<rparr>) \<and>
   handle_event every_stage 0 0 (KEYDOWN K_DOWN) (scenario_game\<lparr>game_state := STATE_GAME_COMPLETE\<rparr>)
     = Inr (scenario_game\<lparr>game_state := STATE_GAME_COMPLETE\<rparr>) \<and>
   handle_event every_stage 0 0 (MOUSEBUTTONDOWN (400, 360)) scenario_game = Inr scenario_game \<and>
   handle_event every_stage 0 0 (MOUSEBUTTONDOWN (0, 0))
       (draw_stage_complete_popup 800 600 (scenario_game\<lparr>game_state := STATE_STAGE_COMPLETE\<rparr>))
     = Inr (draw_stage_complete_popup 800 600 (scenario_game\<lparr>game_state := STATE_STAGE_COMPLETE\<rparr>))"
  using unlisted_input_ignored [of "scenario_game\<lparr>game_state := STATE_STAGE_COMPLETE\<rparr>" every_stage 0 0 K_DOWN "(400, 360)" 0]
    unlisted_input_ignored [of "scenario_game\<lparr>game_state := STATE_GAME_COMPLETE\<rparr>" every_stage 0 0 K_DOWN "(400, 360)" 0]
    unlisted_input_ignored [of scenario_game every_stage 0 0 K_DOWN "(400, 360)" 0]
    unlisted_input_ignored [of "draw_stage_complete_popup 800 600 (scenario_game\<lparr>game_state := STATE_STAGE_COMPLETE\<rparr>)" every_stage 0 0 K_DOWN "(0, 0)" 0]
  by (simp add: scenario_game_def new_game_def button_clicked_def draw_stage_complete_popup_def)

subsection \<open>C4: reaching the goal\<close>

text \<open>
  Claim C4. When a key leads to an open square that is the goal, the move is made and
  counted, and: before the last stage the phase becomes stage complete and one
  \<open>level_complete\<close> call is made with the stage number, the elapsed time and the
  stage's moves; on the last stage the phase becomes game complete and the
  \<open>level_complete\<close> call is followed by a \<open>game_complete\<close> call with the total time
  and the total moves.
\<close>

theorem goal_reached_transition:
  assumes "new_position k (player_x g, player_y g) = Some (end_x g, end_y g)"
    and "is_open (maze g) (end_x g) (end_y g)"
  shows "(current_stage g < total_stages g \<longrightarrow>
           handle_movement now1 now2 k g =
             Inr (g\<lparr> player_x := end_x g, player_y := end_y g,
                     stage_moves := stage_moves g + 1, total_moves := total_moves g + 1,
                     analytics := analytics g @
                       [Level_complete (current_stage g) (now1 - stage_start_time g) (stage_moves g + 1)],
                     game_state := STATE_STAGE_COMPLETE \<rparr>)) \<and>
         (current_stage g = total_stages g \<longrightarrow>
           handle_movement now1 now2 k g =
             Inr (g\<lparr> player_x := end_x g, player_y := end_y g,
                     stage_moves := stage_moves g + 1, total_moves := total_moves g + 1,
                     analytics := analytics g @
                       [Level_complete (current_stage g) (now1 - stage_start_time g) (stage_moves g + 1),
                        Game_complete (now2 - game_start_time g) (total_moves g + 1)],
                     game_state := STATE_GAME_COMPLETE \<rparr>))"
  using assms by (simp add: handle_movement_def is_valid_move_is_open stage_completed_def Let_def)

text \<open>The second step down in the scenario, on stage 1 and on stage 10.\<close>

theorem goal_reached_transition_witness:
  "handle_movement 7 9 K_DOWN (scenario_game\<lparr>player_y := 2, stage_moves := 1, total_moves := 1\<rparr>) =
     Inr (scenario_game\<lparr> player_y := 3, stage_moves := 2, total_moves := 2,
            analytics := [Level_complete 1 7 2], game_state := STATE_STAGE_COMPLETE \<rparr>) \<and>
   handle_movement 7 9 K_DOWN
       (scenario_game\<lparr>player_y := 2, stage_moves := 1, total_moves := 21, current_stage := 10\<rparr>) =
     Inr (scenario_game\<lparr> player_y := 3, stage_moves := 2, total_moves := 22, current_stage := 10,
            analytics := [Level_complete 10 7 2, Game_complete 9 22],
            game_state := STATE_GAME_COMPLETE \<rparr>)"
  using goal_reached_transition [of K_DOWN "scenario_game\<lparr>player_y := 2, stage_moves := 1, total_moves := 1\<rparr>" 7 9]
    goal_reached_transition [of K_DOWN
      "scenario_game\<lparr>player_y := 2, stage_moves := 1, total_moves := 21, current_stage := 10\<rparr>" 7 9]
  by (simp add: scenario_game_def new_game_def is_open_scenario)


subsection \<open>Strings: strip and split\<close>

lemma py_isspace_LF: "py_isspace (CHR 0x0A)"
  by (simp add: py_isspace_def)

lemma py_split_nl_nonempty: "py_split_nl s \<noteq> []"
proof (cases s)
  case Nil
  then show ?thesis by simp
next
  case (Cons c cs)
  then show ?thesis by (cases "py_split_nl cs") simp_all
qed

lemma py_split_nl_append: "py_split_nl (a @ CHR 0x0A # b) = py_split_nl a @ py_split_nl b"
proof (induction a)
  case Nil
  show ?case by simp
next
  case (Cons c a)
  then show ?case
    using py_split_nl_nonempty [of a] by (cases "py_split_nl a") simp_all
qed

lemma py_split_nl_single: "CHR 0x0A \<notin> set a \<Longrightarrow> py_split_nl a = [a]"
  by (induction a) auto

lemma length_py_split_nl: "length (py_split_nl s) = Suc (count_list s (CHR 0x0A))"
proof (induction s)
  case Nil
  show ?case by simp
next
  case (Cons c s)
  then show ?case
    using py_split_nl_nonempty [of s] by (cases "py_split_nl s") simp_all
qed

lemma py_split_nl_join:
  "rs \<noteq> [] \<Longrightarrow> \<forall>r\<in>set rs. CHR 0x0A \<notin> set r \<Longrightarrow> py_split_nl (join_lines rs) = rs"
proof (induction rs rule: join_lines.induct)
  case 1
  then show ?case by simp
next
  case (2 r)
  then show ?case by (simp add: py_split_nl_single)
next
  case (3 r r' rs)
  then show ?case by (simp add: py_split_nl_append py_split_nl_single)
qed

lemma blank_prefix_no_LF:
  assumes "l = u @ m" and "blank u" and "\<forall>r\<in>set (py_split_nl l). \<not> blank r"
  shows "CHR 0x0A \<notin> set u"
proof
  assume "CHR 0x0A \<in> set u"
  then obtain a b where u: "u = a @ CHR 0x0A # b" and a: "CHR 0x0A \<notin> set a"
    by (meson split_list_first)
  have "py_split_nl l = a # py_split_nl (b @ m)"
    using assms(1) u a by (simp add: py_split_nl_append py_split_nl_single)
  moreover have "blank a"
    using assms(2) u by (simp add: blank_def)
  ultimately show False
    using assms(3) by simp
qed

lemma blank_suffix_no_LF:
  assumes "l = m @ v" and "blank v" and "\<forall>r\<in>set (py_split_nl l). \<not> blank r"
  shows "CHR 0x0A \<notin> set v"
proof
  assume "CHR 0x0A \<in> set v"
  then obtain a b where v: "v = a @ CHR 0x0A # b" and b: "CHR 0x0A \<notin> set b"
    by (meson split_list_last)
  have "py_split_nl l = py_split_nl (m @ a) @ [b]"
    using assms(1) v b py_split_nl_append [of "m @ a" b] by (simp add: py_split_nl_single)
  moreover have "blank b"
    using assms(2) v by (simp add: blank_def)
  ultimately show False
    using assms(3) by simp
qed

lemma py_strip_decompose:
  "\<exists>u v. l = u @ py_strip l @ v \<and> blank u \<and> blank v"
proof -
  define d where "d = dropWhile py_isspace l"
  have 1: "l = takeWhile py_isspace l @ d"
    by (simp add: d_def)
  have "rev (takeWhile py_isspace (rev d) @ dropWhile py_isspace (rev d)) = d"
    by (simp only: takeWhile_dropWhile_id rev_rev_ident)
  then have "rev (dropWhile py_isspace (rev d)) @ rev (takeWhile py_isspace (rev d)) = d"
    by (simp only: rev_append)
  then have 2: "d = py_strip l @ rev (takeWhile py_isspace (rev d))"
    by (simp only: py_strip_def d_def)
  have "blank (takeWhile py_isspace l)" "blank (rev (takeWhile py_isspace (rev d)))"
    by (auto simp: blank_def list_all_iff dest: set_takeWhileD)
  with 1 2 show ?thesis by metis
qed

lemma count_LF_py_strip:
  assumes "\<forall>r\<in>set (py_split_nl l). \<not> blank r"
  shows "count_list (py_strip l) (CHR 0x0A) = count_list l (CHR 0x0A)"
proof -
  obtain u v where l: "l = u @ py_strip l @ v" and u: "blank u" and v: "blank v"
    using py_strip_decompose by blast
  have "CHR 0x0A \<notin> set u"
    using blank_prefix_no_LF [OF l u assms] .
  moreover have "CHR 0x0A \<notin> set v"
    using blank_suffix_no_LF [of l "u @ py_strip l" v] l v assms by simp
  ultimately have "count_list (u @ py_strip l @ v) (CHR 0x0A) = count_list (py_strip l) (CHR 0x0A)"
    by (simp add: count_list_0_iff)
  with l show ?thesis by simp
qed

lemma py_strip_append_blank:
  assumes "blank w"
  shows "py_strip (l @ w) = py_strip l"
proof (cases "blank l")
  case True
  then have "\<forall>x\<in>set (l @ w). py_isspace x" "\<forall>x\<in>set l. py_isspace x"
    using assms by (simp_all add: blank_def list_all_iff ball_Un)
  then have "dropWhile py_isspace (l @ w) = []" "dropWhile py_isspace l = []"
    by (simp_all only: dropWhile_eq_Nil_conv)
  then show ?thesis by (simp only: py_strip_def)
next
  case False
  then obtain x where "x \<in> set l" "\<not> py_isspace x"
    by (auto simp: blank_def list_all_iff)
  then have "dropWhile py_isspace (l @ w) = dropWhile py_isspace l @ w"
    by (simp add: dropWhile_append1)
  moreover have "dropWhile py_isspace (rev w @ r) = dropWhile py_isspace r" for r
    using assms by (intro dropWhile_append2) (simp add: blank_def list_all_iff)
  ultimately show ?thesis by (simp add: py_strip_def)
qed


lemma py_strip_blank: "blank l \<Longrightarrow> py_strip l = []"
proof -
  assume "blank l"
  then have "\<forall>x\<in>set l. py_isspace x"
    by (simp add: blank_def list_all_iff)
  then have "dropWhile py_isspace l = []"
    by (simp only: dropWhile_eq_Nil_conv)
  then show ?thesis by (simp only: py_strip_def rev.simps dropWhile.simps)
qed

lemma not_py_isspace_scenario:
  "\<not> py_isspace (CHR ''#'')" "\<not> py_isspace (CHR ''S'')" "\<not> py_isspace (CHR ''E'')"
  "\<not> py_isspace (CHR ''.'')"
  by (simp_all add: py_isspace_def)

lemma py_isspace_space: "py_isspace (CHR '' '')"
  by (simp add: py_isspace_def)

lemma py_strip_scenario_layout: "py_strip scenario_layout = scenario_layout"
  by (simp add: scenario_layout_def py_strip_def not_py_isspace_scenario)

lemma parse_scenario_layout: "parse_layout scenario_layout = scenario_maze"
proof -
  have a: "scenario_layout = join_lines scenario_maze"
    by (simp only: scenario_layout_def scenario_maze_def)
  have "py_split_nl (join_lines scenario_maze) = scenario_maze"
    by (rule py_split_nl_join) (simp_all add: scenario_maze_def)
  then have "py_split_nl scenario_layout = scenario_maze"
    by (simp only: a)
  then show ?thesis
    by (simp only: parse_layout_def py_strip_scenario_layout)
qed

subsection \<open>C7: the rows of a parsed layout\<close>

lemma py_split_nl_scenario_layout: "py_split_nl scenario_layout = scenario_maze"
  using parse_scenario_layout by (simp only: parse_layout_def py_strip_scenario_layout)

lemma length_parse_layout:
  assumes "\<forall>r\<in>set (py_split_nl l). \<not> blank r"
  shows "length (parse_layout l) = length (py_split_nl l)"
  using count_LF_py_strip [OF assms] by (simp add: parse_layout_def length_py_split_nl)

text \<open>
  Claim C7. A layout whose rows are all non-blank parses to a grid with as many rows
  as the layout has: both for the rows that the line feeds of a string delimit, and
  for the layout written from \<open>H\<close> rows (\<open>H\<close> at least 1, no row holding a line feed),
  whose grid has exactly \<open>H\<close> rows. And a layout followed by a line feed and a blank
  line parses to the same grid as the layout alone.
\<close>

theorem parse_layout_rows:
  "((\<forall>r\<in>set (py_split_nl l). \<not> blank r)
      \<longrightarrow> length (parse_layout l) = length (py_split_nl l)) \<and>
   (rs \<noteq> [] \<and> (\<forall>r\<in>set rs. CHR 0x0A \<notin> set r \<and> \<not> blank r)
      \<longrightarrow> length (parse_layout (join_lines rs)) = length rs) \<and>
   (blank b \<longrightarrow> parse_layout (l @ CHR 0x0A # b) = parse_layout l)"
proof (intro conjI impI)
  assume "\<forall>r\<in>set (py_split_nl l). \<not> blank r"
  then show "length (parse_layout l) = length (py_split_nl l)"
    by (rule length_parse_layout)
next
  assume a: "rs \<noteq> [] \<and> (\<forall>r\<in>set rs. CHR 0x0A \<notin> set r \<and> \<not> blank r)"
  then have s: "py_split_nl (join_lines rs) = rs"
    by (simp add: py_split_nl_join)
  with a have "length (parse_layout (join_lines rs)) = length (py_split_nl (join_lines rs))"
    by (intro length_parse_layout) simp
  with s show "length (parse_layout (join_lines rs)) = length rs" by simp
next
  assume "blank b"
  then have "blank (CHR 0x0A # b)"
    by (simp add: blank_def py_isspace_LF)
  then show "parse_layout (l @ CHR 0x0A # b) = parse_layout l"
    by (simp add: parse_layout_def py_strip_append_blank)
qed

text \<open>The five rows of the scenario, and its layout with a trailing blank or empty line.\<close>

theorem parse_layout_rows_witness:
  "length (parse_layout scenario_layout) = length (py_split_nl scenario_layout) \<and>
   length (parse_layout (join_lines [''###'', ''#S#'', ''#.#'', ''#E#'', ''###''])) = 5 \<and>
   parse_layout (scenario_layout @ CHR 0x0A # ''  '') = parse_layout scenario_layout \<and>
   parse_layout (scenario_layout @ [CHR 0x0A]) = parse_layout scenario_layout"
  using parse_layout_rows [of scenario_layout "[''###'', ''#S#'', ''#.#'', ''#E#'', ''###'']" "''  ''"]
    parse_layout_rows [of scenario_layout "[''###'', ''#S#'', ''#.#'', ''#E#'', ''###'']" "[]"]
  by (simp add: blank_def not_py_isspace_scenario py_isspace_space py_split_nl_scenario_layout
      scenario_maze_def)


subsection \<open>C5: layouts without rows\<close>

text \<open>
  The claim C5 asks that a layout whose parse has no row fails to parse and fails to
  load. The code has no such failure: the empty layout parses to the grid of one empty
  row, and its load reports success.
\<close>

theorem empty_layout_loads:
  "parse_layout (sd_layout empty_stage) = [[]] \<and>
   load_stage empty_source 0 1 new_game =
     (True, new_game\<lparr>stage_data := Some empty_stage, maze := [[]]\<rparr>)"
  by (simp add: load_stage_def empty_source_def empty_stage_def new_game_def parse_layout_def
      py_strip_def Let_def)

text \<open>
  Claim C5, as amended. No layout parses to zero rows and no parse fails: every layout
  yields at least one row, a blank layout yields the single empty row, and the load of
  a stage the source has data for reports success with the parsed grid.
\<close>

theorem parse_layout_total:
  "parse_layout l \<noteq> [] \<and>
   (blank l \<longrightarrow> parse_layout l = [[]]) \<and>
   (src n = Some d \<longrightarrow>
      fst (load_stage src now n g) \<and>
      maze (snd (load_stage src now n g)) = parse_layout (sd_layout d))"
  by (simp add: parse_layout_def py_split_nl_nonempty py_strip_blank load_stage_def Let_def)

text \<open>A layout of two spaces, the empty layout, and the load of the empty stage.\<close>

theorem parse_layout_total_witness:
  "parse_layout ''  '' = [[]] \<and> parse_layout [] = [[]] \<and>
   fst (load_stage empty_source 0 1 new_game) \<and>
   maze (snd (load_stage empty_source 0 1 new_game)) = [[]]"
  using parse_layout_total [of "''  ''" empty_source 1 empty_stage 0 new_game]
    parse_layout_total [of "[]" empty_source 1 empty_stage 0 new_game]
  by (simp add: blank_def py_isspace_space empty_source_def empty_stage_def)


subsection \<open>C3: the stage move counter\<close>

lemma handle_movement_counts:
  "\<exists>g1. handle_movement now1 now2 k g = Inr g1 \<and>
     stage_moves g1 = stage_moves g + (if accepted g k then 1 else 0) \<and>
     total_moves g1 = total_moves g + (if accepted g k then 1 else 0)"
  by (cases k)
    (simp_all add: handle_movement_def is_valid_move_is_open accepted_def
      apply_move_outcome_def stage_completed_def Let_def)

lemma handle_movements_counts:
  "\<exists>g'. handle_movements ks g = Inr g' \<and>
     stage_moves g' = stage_moves g + int (accepted_moves ks g)"
proof (induction ks arbitrary: g)
  case Nil
  show ?case by simp
next
  case (Cons a ks)
  obtain now1 now2 k where a: "a = (now1, now2, k)"
    by (cases a) auto
  obtain g1 where g1: "handle_movement now1 now2 k g = Inr g1"
    and c: "stage_moves g1 = stage_moves g + (if accepted g k then 1 else 0)"
    using handle_movement_counts by blast
  obtain g' where "handle_movements ks g1 = Inr g'"
    and "stage_moves g' = stage_moves g1 + int (accepted_moves ks g1)"
    using Cons.IH by blast
  with a g1 c show ?case by simp
qed

text \<open>
  Claim C3. A load that finds data sets the stage move counter to 0. For every
  sequence of keys given to \<open>handle_movement\<close>, the calls all return and the counter
  grows by the number of accepted moves of the sequence (outcome \<open>Moved\<close> or
  \<open>ReachedGoal\<close>): one per accepted move, none for a rejected one. So after a load
  the counter is the number of accepted moves since that load.
\<close>

theorem stage_moves_counts_accepted:
  "(src n \<noteq> None \<longrightarrow> stage_moves (snd (load_stage src now n g)) = 0) \<and>
   (\<exists>g'. handle_movements ks g = Inr g' \<and>
      stage_moves g' = stage_moves g + int (accepted_moves ks g)) \<and>
   (src n \<noteq> None \<longrightarrow>
      (\<exists>g'. handle_movements ks (snd (load_stage src now n g)) = Inr g' \<and>
         stage_moves g' = int (accepted_moves ks (snd (load_stage src now n g)))))"
proof -
  have r: "src n \<noteq> None \<longrightarrow> stage_moves (snd (load_stage src now n g)) = 0"
    by (auto simp: load_stage_def Let_def)
  moreover have "src n \<noteq> None \<longrightarrow>
      (\<exists>g'. handle_movements ks (snd (load_stage src now n g)) = Inr g' \<and>
         stage_moves g' = int (accepted_moves ks (snd (load_stage src now n g))))"
    using r handle_movements_counts [of ks "snd (load_stage src now n g)"] by auto
  ultimately show ?thesis
    using handle_movements_counts [of ks g] by blast
qed

text \<open>Scenarios A and B: left is rejected, the two steps down are accepted.\<close>

theorem stage_moves_counts_accepted_witness:
  "every_stage 1 \<noteq> None \<and>
   stage_moves (snd (load_stage every_stage 0 1 new_game)) = 0 \<and>
   accepted_moves [(0, 0, K_LEFT), (0, 0, K_DOWN), (0, 0, K_DOWN)]
     (snd (load_stage every_stage 0 1 new_game)) = 2 \<and>
   (\<exists>g'. handle_movements [(0, 0, K_LEFT), (0, 0, K_DOWN), (0, 0, K_DOWN)]
            (snd (load_stage every_stage 0 1 new_game)) = Inr g' \<and> stage_moves g' = 2)"
proof -
  have 1: "every_stage 1 \<noteq> None"
    by (simp add: every_stage_def)
  have 2: "accepted_moves [(0, 0, K_LEFT), (0, 0, K_DOWN), (0, 0, K_DOWN)]
     (snd (load_stage every_stage 0 1 new_game)) = 2"
    by code_simp
  show ?thesis
    using 1 2
      stage_moves_counts_accepted [of every_stage 1 0 new_game
        "[(0, 0, K_LEFT), (0, 0, K_DOWN), (0, 0, K_DOWN)]"]
    by simp
qed

subsection \<open>C10: stage moves and total moves\<close>

lemma load_stage_counters:
  "counters_ordered g \<Longrightarrow> counters_ordered (snd (load_stage src now n g))"
  by (simp add: counters_ordered_def load_stage_def Let_def split: option.splits)

lemma apply_operation_counters:
  assumes "restart_loads op" and "counters_ordered g"
  shows "\<exists>g1. apply_operation op g = Inr g1 \<and> counters_ordered g1"
proof (cases op)
  case (Handle_movement now1 now2 k)
  then show ?thesis
    using assms(2) handle_movement_counts [of now1 now2 k g]
    by (auto simp: counters_ordered_def)
next
  case (Load_stage src now n)
  then show ?thesis
    using assms(2) by (simp add: load_stage_counters)
next
  case (Next_stage src now)
  then show ?thesis
    using assms(2) load_stage_counters [of "g\<lparr>current_stage := current_stage g + 1\<rparr>" src now]
    by (simp add: next_stage_def Let_def counters_ordered_def)
next
  case (Restart_game src now1 now2)
  then show ?thesis
    using assms(1)
    by (auto simp: restart_game_def load_stage_def Let_def counters_ordered_def)
qed

lemma apply_operations_counters:
  "list_all restart_loads ops \<Longrightarrow> counters_ordered g \<Longrightarrow>
     \<exists>g'. apply_operations ops g = Inr g' \<and> counters_ordered g'"
proof (induction ops arbitrary: g)
  case Nil
  then show ?case by simp
next
  case (Cons op ops)
  then obtain g1 where "apply_operation op g = Inr g1" and "counters_ordered g1"
    using apply_operation_counters [of op g] by auto
  with Cons show ?case by simp
qed

text \<open>
  The claim C10 asks that the stage counter never exceeds the total counter after any
  sequence of the four operations. A restart whose load finds no data breaks it:
  \<open>total_moves\<close> is back at 0 and \<open>stage_moves\<close> keeps the move made before.
\<close>

theorem failed_restart_counters:
  "apply_operations
     [Load_stage every_stage 0 1, Handle_movement 0 0 K_DOWN, Restart_game no_stage 0 0] new_game =
     Inr (scenario_game\<lparr>stage_data := None, player_y := 2, stage_moves := 1, total_moves := 0,
            analytics := [Game_start]\<rparr>) \<and>
   stage_moves (scenario_game\<lparr>stage_data := None, player_y := 2, stage_moves := 1,
            total_moves := 0, analytics := [Game_start]\<rparr>) = 1 \<and>
   total_moves (scenario_game\<lparr>stage_data := None, player_y := 2, stage_moves := 1,
            total_moves := 0, analytics := [Game_start]\<rparr>) = 0"
  by code_simp

text \<open>
  Claim C10, as amended. After every sequence of \<open>handle_movement\<close>, \<open>load_stage\<close>,
  \<open>next_stage\<close> and \<open>restart_game\<close> from a fresh game in which each \<open>restart_game\<close>
  finds the data of stage 1, every call has returned and the stage move counter is at
  least 0 and at most the total move counter. The loads of \<open>load_stage\<close> and
  \<open>next_stage\<close> may fail.
\<close>

theorem stage_moves_le_total_moves:
  "list_all restart_loads ops \<Longrightarrow>
     \<exists>g. apply_operations ops new_game = Inr g \<and> 0 \<le> stage_moves g \<and> stage_moves g \<le> total_moves g"
  using apply_operations_counters [of ops new_game]
  by (simp add: counters_ordered_def new_game_def)

text \<open>A load, a move, a restart that loads, a continue whose load fails, and a move.\<close>

theorem stage_moves_le_total_moves_witness:
  "list_all restart_loads
     [Load_stage every_stage 0 1, Handle_movement 0 0 K_DOWN, Restart_game every_stage 0 0,
      Next_stage no_stage 0, Handle_movement 0 0 K_DOWN] \<and>
   (\<exists>g. apply_operations
          [Load_stage every_stage 0 1, Handle_movement 0 0 K_DOWN, Restart_game every_stage 0 0,
           Next_stage no_stage 0, Handle_movement 0 0 K_DOWN] new_game = Inr g \<and>
        0 \<le> stage_moves g \<and> stage_moves g \<le> total_moves g)"
  using stage_moves_le_total_moves
    [of "[Load_stage every_stage 0 1, Handle_movement 0 0 K_DOWN, Restart_game every_stage 0 0,
          Next_stage no_stage 0, Handle_movement 0 0 K_DOWN]"]
  by (simp add: every_stage_def)


subsection \<open>C2: the stage number when the game is complete\<close>

lemma serves_all_stagesD:
  "serves_all_stages src \<Longrightarrow> 1 \<le> n \<Longrightarrow> n \<le> 10 \<Longrightarrow> \<exists>d. src n = Some d"
  by (auto simp: serves_all_stages_def list_all_iff)

lemma handle_movement_stage_in_range:
  assumes "stage_in_range g" and "handle_movement now1 now2 k g = Inr g'"
  shows "stage_in_range g'"
proof (cases "new_position k (player_x g, player_y g)")
  case None
  with assms show ?thesis by (simp add: handle_movement_def)
next
  case (Some p)
  obtain x y where p: "p = (x, y)" by (cases p)
  show ?thesis
  proof (cases "is_open (maze g) x y")
    case False
    with assms Some p show ?thesis
      by (simp add: handle_movement_def is_valid_move_is_open)
  next
    case True
    with assms Some p show ?thesis
      by (auto simp: handle_movement_def is_valid_move_is_open stage_completed_def Let_def
          stage_in_range_def split: if_splits)
  qed
qed

lemma load_stage_stage_in_range:
  assumes "src n = Some d" and "total_stages g = 10" and "1 \<le> current_stage g"
    and "current_stage g \<le> 10"
  shows "stage_in_range (snd (load_stage src now n g))"
  using assms by (simp add: load_stage_def Let_def stage_in_range_def)

lemma next_stage_stage_in_range:
  assumes "serves_all_stages src" and "stage_in_range g"
    and "game_state g = STATE_STAGE_COMPLETE"
  shows "stage_in_range (next_stage src now g)"
proof -
  have c: "1 \<le> current_stage g + 1" "current_stage g + 1 \<le> 10" "total_stages g = 10"
    using assms(2,3) by (simp_all add: stage_in_range_def)
  then obtain d where "src (current_stage g + 1) = Some d"
    using serves_all_stagesD [OF assms(1)] by blast
  then have "stage_in_range
      (snd (load_stage src now (current_stage g + 1) (g\<lparr>current_stage := current_stage g + 1\<rparr>)))"
    using c by (intro load_stage_stage_in_range) simp_all
  then show ?thesis
    using c by (simp add: next_stage_def Let_def)
qed

lemma restart_game_stage_in_range:
  assumes "serves_all_stages src" and "stage_in_range g"
  shows "stage_in_range (restart_game src now1 now2 g)"
proof -
  obtain d where "src 1 = Some d"
    using serves_all_stagesD [OF assms(1), of 1] by auto
  moreover have "total_stages g = 10"
    using assms(2) by (simp add: stage_in_range_def)
  ultimately show ?thesis
    by (simp add: restart_game_def Let_def load_stage_stage_in_range)
qed

lemma handle_event_stage_in_range:
  assumes "serves_all_stages src" and "stage_in_range g"
    and "handle_event src now1 now2 ev g = Inr g'"
  shows "stage_in_range g'"
proof (cases ev)
  case QUIT
  with assms show ?thesis by (auto simp: handle_event_def stage_in_range_def)
next
  case (KEYDOWN k)
  with assms show ?thesis
    by (auto simp: handle_event_def split: if_splits dest: handle_movement_stage_in_range)
next
  case (MOUSEBUTTONDOWN pos)
  with assms show ?thesis
    by (auto simp: handle_event_def next_stage_stage_in_range restart_game_stage_in_range
        split: if_splits)
next
  case OTHER_EVENT
  with assms show ?thesis by (simp add: handle_event_def)
qed

lemma handle_events_stage_in_range:
  "list_all (\<lambda>(src, now1, now2, ev). serves_all_stages src) evs \<Longrightarrow> stage_in_range g \<Longrightarrow>
     handle_events evs g = Inr g' \<Longrightarrow> stage_in_range g'"
proof (induction evs arbitrary: g)
  case Nil
  then show ?case by simp
next
  case (Cons a evs)
  obtain src now1 now2 ev where a: "a = (src, now1, now2, ev)"
    by (cases a) auto
  from Cons.prems(3) a obtain g1 where g1: "handle_event src now1 now2 ev g = Inr g1"
    and rest: "handle_events evs g1 = Inr g'"
    by (auto split: sum.splits)
  have "stage_in_range g1"
    using Cons.prems(1,2) a g1 by (auto intro: handle_event_stage_in_range)
  with Cons.IH Cons.prems(1) rest show ?case by simp
qed

lemma draw_stage_in_range:
  "stage_in_range g \<Longrightarrow> draw sw sh g = Inr g' \<Longrightarrow> stage_in_range g'"
  by (cases "game_state g")
    (auto simp: draw_def draw_stage_complete_popup_def draw_game_complete_popup_def
      stage_in_range_def Let_def split: sum.splits)

lemma run_stage_in_range:
  "loads_succeed frames \<Longrightarrow> stage_in_range g \<Longrightarrow> run sw sh frames g = Inr g' \<Longrightarrow>
     stage_in_range g'"
proof (induction frames arbitrary: g)
  case Nil
  then show ?case by simp
next
  case (Cons f frames)
  show ?case
  proof (cases "running g")
    case False
    with Cons.prems show ?thesis by simp
  next
    case True
    with Cons.prems(3) obtain g1 g2 where 1: "handle_events f g = Inr g1"
      and 2: "draw sw sh g1 = Inr g2" and 3: "run sw sh frames g2 = Inr g'"
      by (auto split: sum.splits)
    have "stage_in_range g1"
      using Cons.prems(1,2) 1 by (auto simp: loads_succeed_def intro: handle_events_stage_in_range)
    then have "stage_in_range g2"
      using 2 by (rule draw_stage_in_range)
    moreover have "loads_succeed frames"
      using Cons.prems(1) by (simp add: loads_succeed_def)
    ultimately show ?thesis
      using Cons.IH 3 by blast
  qed
qed

lemma initialize_stage_in_range:
  "initialize src0 src now1 now2 new_game = (True, g) \<Longrightarrow> stage_in_range g"
  by (auto simp: initialize_def load_stage_def Let_def new_game_def stage_in_range_def
      split: if_splits option.splits)

text \<open>
  The claim C2 asks that the phase is game complete only with \<open>current_stage\<close> equal
  to \<open>total_stages\<close>, also after a continue whose load failed. In this run of \<open>main\<close>
  stage 1 is completed, the loads of stages 2 to 10 fail one click after the other,
  and the next click makes the game complete with \<open>current_stage\<close> at 11.
\<close>

theorem continue_after_failed_loads:
  "main 800 600 only_stage_1 only_stage_1 0 0 failed_continue_frames =
     Some (Inr (scenario_game\<lparr> stage_data := None, player_y := 3, stage_moves := 2,
                  total_moves := 2, analytics := [Game_start, Level_complete 1 0 2],
                  game_state := STATE_GAME_COMPLETE, current_stage := 11,
                  continue_button := Some (Rect 310 370 180 40) \<rparr>)) \<and>
   total_stages scenario_game = 10"
  by code_simp

text \<open>
  Claim C2, as amended. In every state that \<open>main\<close> reaches through any frames of
  events while the level source has data for every stage, the phase is game complete
  only with \<open>current_stage\<close> equal to \<open>total_stages\<close>.
\<close>

theorem game_complete_at_last_stage:
  assumes "loads_succeed frames"
    and "main sw sh src0 src now1 now2 frames = Some (Inr g)"
    and "game_state g = STATE_GAME_COMPLETE"
  shows "current_stage g = total_stages g"
proof -
  from assms(2) obtain g0 where i: "initialize src0 src now1 now2 new_game = (True, g0)"
    and r: "run sw sh frames g0 = Inr g"
    by (auto simp: main_def split: prod.splits if_splits)
  have "stage_in_range g0"
    using i by (rule initialize_stage_in_range)
  then have "stage_in_range g"
    using assms(1) r by (auto intro: run_stage_in_range)
  with assms(3) show ?thesis
    by (simp add: stage_in_range_def)
qed

text \<open>The ten stages played to the end.\<close>

theorem game_complete_at_last_stage_witness:
  "loads_succeed full_play_frames \<and>
   (\<exists>g. main 800 600 every_stage every_stage 0 0 full_play_frames = Some (Inr g) \<and>
        game_state g = STATE_GAME_COMPLETE \<and> current_stage g = 10 \<and> total_stages g = 10)"
proof -
  define g where "g = scenario_game\<lparr> player_y := 3, stage_moves := 2, total_moves := 20,
      analytics := [Game_start, Level_complete 1 0 2, Level_complete 2 0 2, Level_complete 3 0 2,
        Level_complete 4 0 2, Level_complete 5 0 2, Level_complete 6 0 2, Level_complete 7 0 2,
        Level_complete 8 0 2, Level_complete 9 0 2, Level_complete 10 0 2, Game_complete 0 20],
      game_state := STATE_GAME_COMPLETE, current_stage := 10,
      continue_button := Some (Rect 310 370 180 40) \<rparr>"
  have 1: "loads_succeed full_play_frames"
    by code_simp
  have 2: "main 800 600 every_stage every_stage 0 0 full_play_frames = Some (Inr g)"
    unfolding g_def by code_simp
  have 3: "game_state g = STATE_GAME_COMPLETE"
    by (simp add: g_def)
  have "current_stage g = total_stages g"
    using game_complete_at_last_stage [OF 1 2 3] .
  moreover have "current_stage g = 10"
    by (simp add: g_def)
  ultimately show ?thesis
    using 1 2 3 by auto
qed


end
